theory Spec2Isabelle
  imports Main "HOL-Library.Multiset"
begin

section \<open>Input file streams\<close>

text \<open>
  A file is the sequence of the integers it holds: the program reads and writes whole
  values of the type \<open>int\<close> only, and bytes after the last whole integer of the input are
  never read. The program compares these values and does no arithmetic on them, so a value
  is modelled by the mathematical integer it denotes. The width of an \<open>int\<close> in bytes is
  \<open>sizeof_int\<close>. Byte counts, positions and counters, which the program keeps in \<open>int\<close>
  variables, are mathematical integers too: the model covers the files whose length in
  bytes an \<open>int\<close> can hold.
\<close>

definition sizeof_int :: int where
  "sizeof_int = 4"

text \<open>
  A \<open>std::ifstream\<close>: the integers of the file it was opened on, the read position
  (counted in whole integers; \<open>tellg\<close> reports it in bytes) and the two error flags that
  the member functions used by the program inspect or change. The member functions follow
  the C++ standard (from C++11 on, where \<open>seekg\<close> first resets \<open>eofbit\<close>): each returns the
  stream as it leaves it, beside its result.
\<close>

record ifstream =
  contents :: "int list"
  gpos :: nat
  eofbit :: bool
  failbit :: bool

datatype seekdir = ios_beg | ios_end

definition good :: "ifstream \<Rightarrow> bool" where
  "good s = (\<not> eofbit s \<and> \<not> failbit s)"

text \<open>The sentry every unformatted input function constructs: a stream that is not good
  gets \<open>failbit\<close>.\<close>

definition sentry :: "ifstream \<Rightarrow> ifstream" where
  "sentry s = (if good s then s else s\<lparr>failbit := True\<rparr>)"

definition tellg :: "ifstream \<Rightarrow> int \<times> ifstream" where
  "tellg s =
     (let s1 = sentry s
      in (if failbit s1 then - 1 else sizeof_int * int (gpos s1), s1))"

definition seekg_to :: "int \<Rightarrow> ifstream \<Rightarrow> ifstream" where
  "seekg_to target s =
     (let s1 = sentry (s\<lparr>eofbit := False\<rparr>)
      in if failbit s1 then s1
         else if target < 0 then s1\<lparr>failbit := True\<rparr>
         else s1\<lparr>gpos := nat (target div sizeof_int)\<rparr>)"

definition seekg_dir :: "int \<Rightarrow> seekdir \<Rightarrow> ifstream \<Rightarrow> ifstream" where
  "seekg_dir off dir s =
     (case dir of
        ios_beg \<Rightarrow> seekg_to off s
      | ios_end \<Rightarrow> seekg_to (sizeof_int * int (length (contents s)) + off) s)"

definition seekg_pos :: "int \<Rightarrow> ifstream \<Rightarrow> ifstream" where
  "seekg_pos p s = seekg_to p s"

definition clear :: "ifstream \<Rightarrow> ifstream" where
  "clear s = s\<lparr>eofbit := False, failbit := False\<rparr>"

text \<open>\<open>read\<close> of \<open>n\<close> integers: the integers obtained and the stream afterwards. A read
  that meets the end of the file obtains fewer and sets both flags.\<close>

definition read :: "ifstream \<Rightarrow> nat \<Rightarrow> int list \<times> ifstream" where
  "read s n =
     (let s1 = sentry s
      in if failbit s1 then ([], s1)
         else let avail = drop (gpos s1) (contents s1)
              in if n \<le> length avail then (take n avail, s1\<lparr>gpos := gpos s1 + n\<rparr>)
                 else (avail, s1\<lparr>gpos := gpos s1 + length avail,
                                  eofbit := True, failbit := True\<rparr>))"

definition open_stream :: "int list \<Rightarrow> ifstream" where
  "open_stream xs = \<lparr>contents = xs, gpos = 0, eofbit = False, failbit = False\<rparr>"

subsection \<open>fileLen\<close>

definition fileLen :: "ifstream \<Rightarrow> int \<times> ifstream" where
  "fileLen file =
     (let (position, f1) = tellg file;
          f2 = seekg_dir 0 ios_beg f1;
          (start, f3) = tellg f2;
          f4 = seekg_dir 0 ios_end f3;
          (end', f5) = tellg f4;
          f6 = clear f5;
          f7 = seekg_pos position f6
      in (end' - start, f7))"

section \<open>Files on disk\<close>

text \<open>
  \<open>std::to_string\<close> on an \<open>int\<close>: the decimal rendering, with a minus sign for negative
  numbers.
\<close>

definition digit_char :: "nat \<Rightarrow> char" where
  "digit_char d = ''0123456789'' ! d"

function digits :: "nat \<Rightarrow> string" where
  "digits n = (if n < 10 then [digit_char n] else digits (n div 10) @ [digit_char (n mod 10)])"
  by pat_completeness auto
termination
  by (relation "measure id") auto

declare digits.simps [simp del]

definition to_string :: "int \<Rightarrow> string" where
  "to_string i = (if i < 0 then CHR ''-'' # digits (nat (- i)) else digits (nat i))"

text \<open>
  The working directory maps a file name to the integers the file holds. Beside it the
  model keeps a journal of resource events, which no operation reads: the size of each
  buffer allocated by run generation, the number of streams allocated for a batch, the
  size of the merge frontier each time it changes, and the name of each file created.
\<close>

datatype event = Buffered nat | Opened nat | Frontier nat | Created string

record world =
  disk :: "string \<rightharpoonup> int list"
  journal :: "event list"

definition record_event :: "event \<Rightarrow> world \<Rightarrow> world" where
  "record_event e w = w\<lparr>journal := journal w @ [e]\<rparr>"

text \<open>An \<open>std::ofstream\<close>: opening creates or truncates the file; the integers written
  are in the file once the stream is closed.\<close>

record ofstream =
  path :: string
  written :: "int list"

definition ofstream_open :: "string \<Rightarrow> world \<Rightarrow> ofstream \<times> world" where
  "ofstream_open name w =
     (\<lparr>path = name, written = []\<rparr>,
      record_event (Created name) (w\<lparr>disk := (disk w)(name \<mapsto> [])\<rparr>))"

definition ofstream_write :: "ofstream \<Rightarrow> int list \<Rightarrow> ofstream" where
  "ofstream_write out xs = out\<lparr>written := written out @ xs\<rparr>"

definition ofstream_close :: "ofstream \<Rightarrow> world \<Rightarrow> world" where
  "ofstream_close out w = w\<lparr>disk := (disk w)(path out \<mapsto> written out)\<rparr>"

text \<open>Opening an \<open>std::ifstream\<close> on a name: a missing file leaves the stream failed.\<close>

definition ifstream_open :: "world \<Rightarrow> string \<Rightarrow> ifstream" where
  "ifstream_open w name =
     (case disk w name of
        None \<Rightarrow> \<lparr>contents = [], gpos = 0, eofbit = False, failbit = True\<rparr>
      | Some xs \<Rightarrow> open_stream xs)"

definition remove_file :: "string \<Rightarrow> world \<Rightarrow> world" where
  "remove_file name w = w\<lparr>disk := (disk w)(name := None)\<rparr>"

text \<open>\<open>rename\<close>, as POSIX specifies it: it fails, changing nothing, when the old name does
  not exist, does nothing when both names are the same file, and replaces a file that
  exists under the new name. The program ignores its result.\<close>

definition rename_file :: "string \<Rightarrow> string \<Rightarrow> world \<Rightarrow> world" where
  "rename_file old new w =
     (case disk w old of
        None \<Rightarrow> w
      | Some xs \<Rightarrow> if old = new then w else w\<lparr>disk := ((disk w)(old := None))(new \<mapsto> xs)\<rparr>)"

section \<open>Run generation\<close>

text \<open>
  The ways the program stops without a result: an array allocated with a negative length,
  a value used that no read has set (a short or failed read leaves it indeterminate), and
  the two \<open>exit\<close> calls of \<open>main\<close>. A loop that does not end yields \<open>None\<close>.
\<close>

datatype error = bad_array_new_length | indeterminate_value | exit_bound | exit_open

partial_function (option) makeTempFiles_loop ::
  "world \<Rightarrow> ifstream \<Rightarrow> int \<Rightarrow> int \<Rightarrow> int \<Rightarrow> (error + world \<times> ifstream \<times> int) option"
where
  "makeTempFiles_loop w unsortedFile maxFileInts amountLeftToRead fileNumber =
     (if amountLeftToRead > 0 then
        let numToRead = (if amountLeftToRead < maxFileInts then amountLeftToRead
                         else maxFileInts);
            amountLeftToRead' = amountLeftToRead - numToRead
        in if numToRead < 0 then Some (Inl bad_array_new_length)
           else
             let w1 = record_event (Buffered (nat numToRead)) w;
                 got = fst (read unsortedFile (nat numToRead));
                 unsortedFile' = snd (read unsortedFile (nat numToRead))
             in if length got < nat numToRead then Some (Inl indeterminate_value)
                else
                  let sortedValues = sort got;
                      outFile = fst (ofstream_open (to_string fileNumber) w1);
                      w2 = snd (ofstream_open (to_string fileNumber) w1);
                      outFile' = ofstream_write outFile sortedValues;
                      w3 = ofstream_close outFile' w2
                  in makeTempFiles_loop w3 unsortedFile' maxFileInts amountLeftToRead'
                       (fileNumber + 1)
      else Some (Inr (w, unsortedFile, fileNumber)))"

declare makeTempFiles_loop.simps [code]

definition makeTempFiles ::
  "world \<Rightarrow> ifstream \<Rightarrow> int \<Rightarrow> (error + world \<times> ifstream \<times> int) option" where
  "makeTempFiles w unsortedFile maxFileInts =
     (let amountLeftToRead = fst (fileLen unsortedFile) div sizeof_int
      in makeTempFiles_loop w (snd (fileLen unsortedFile)) maxFileInts amountLeftToRead 0)"

section \<open>Merging\<close>

text \<open>
  The struct \<open>FileInteger\<close>, a cursor into a run: \<open>ptrFileReadFrom\<close> is the index in
  \<open>filesToMerge\<close> of the stream the pointer points to, and \<open>val\<close> is the field \<open>value\<close>. Its
  call operator is the comparison handed to the heap algorithms.
\<close>

record FileInteger =
  ptrFileReadFrom :: nat
  numLeftToRead :: int
  val :: int

definition FileInteger_cmp :: "FileInteger \<Rightarrow> FileInteger \<Rightarrow> bool" where
  "FileInteger_cmp a b = (val a > val b)"

text \<open>
  The heap algorithms of the standard library, \<open>std::make_heap\<close>, \<open>std::pop_heap\<close> and
  \<open>std::push_heap\<close>, are a parameter of the model: each takes the comparison and the range
  and returns the range rearranged.
\<close>

record heap_lib =
  make_heap :: "(FileInteger \<Rightarrow> FileInteger \<Rightarrow> bool) \<Rightarrow> FileInteger list \<Rightarrow> FileInteger list"
  pop_heap :: "(FileInteger \<Rightarrow> FileInteger \<Rightarrow> bool) \<Rightarrow> FileInteger list \<Rightarrow> FileInteger list"
  push_heap :: "(FileInteger \<Rightarrow> FileInteger \<Rightarrow> bool) \<Rightarrow> FileInteger list \<Rightarrow> FileInteger list"

text \<open>The first loop of a batch: open each run, read its first integer, make its cursor.
  The arrays are built by appending element \<open>i\<close> in step \<open>i\<close>.\<close>

function open_loop ::
  "world \<Rightarrow> nat \<Rightarrow> nat \<Rightarrow> int \<Rightarrow> ifstream list \<Rightarrow> FileInteger list
     \<Rightarrow> error + ifstream list \<times> FileInteger list \<times> int"
where
  "open_loop w numFilesToOpen i currentFileNumToMerge filesToMerge fileData =
     (if i < numFilesToOpen then
        let f0 = ifstream_open w (to_string currentFileNumToMerge);
            got = fst (read f0 1);
            f1 = snd (read f0 1)
        in if got = [] then Inl indeterminate_value
           else
             let fi = \<lparr>ptrFileReadFrom = i,
                       numLeftToRead = fst (fileLen f1) div sizeof_int - 1,
                       val = hd got\<rparr>
             in open_loop w numFilesToOpen (i + 1) (currentFileNumToMerge + 1)
                  (filesToMerge @ [snd (fileLen f1)]) (fileData @ [fi])
      else Inr (filesToMerge, fileData, currentFileNumToMerge))"
  by pat_completeness auto
termination
  by (relation "measure (\<lambda>(w, n, i, c, fs, d). n - i)") auto

declare open_loop.simps [simp del]

partial_function (option) merge_loop ::
  "heap_lib \<Rightarrow> world \<Rightarrow> ifstream list \<Rightarrow> FileInteger list \<Rightarrow> ofstream
     \<Rightarrow> (error + world \<times> ifstream list \<times> ofstream) option"
where
  "merge_loop L w filesToMerge fileData outFile =
     (if length fileData > 0 then
        let smallest = hd fileData;
            fileData1 = butlast (pop_heap L FileInteger_cmp fileData);
            w1 = record_event (Frontier (length fileData1)) w;
            outFile1 = ofstream_write outFile [val smallest]
        in if numLeftToRead smallest > 0 then
             let got = fst (read (filesToMerge ! ptrFileReadFrom smallest) 1);
                 f' = snd (read (filesToMerge ! ptrFileReadFrom smallest) 1)
             in if got = [] then Some (Inl indeterminate_value)
                else
                  let nextInteger = \<lparr>ptrFileReadFrom = ptrFileReadFrom smallest,
                                     numLeftToRead = numLeftToRead smallest - 1,
                                     val = hd got\<rparr>;
                      fileData2 = push_heap L FileInteger_cmp (fileData1 @ [nextInteger]);
                      w2 = record_event (Frontier (length fileData2)) w1
                  in merge_loop L w2 (filesToMerge[ptrFileReadFrom smallest := f'])
                       fileData2 outFile1
           else merge_loop L w1 filesToMerge fileData1 outFile1
      else Some (Inr (w, filesToMerge, outFile)))"

declare merge_loop.simps [code]

function remove_loop :: "nat \<Rightarrow> nat \<Rightarrow> int \<Rightarrow> world \<Rightarrow> world" where
  "remove_loop numFilesToOpen i fileToDelete w =
     (if i < numFilesToOpen then
        remove_loop numFilesToOpen (i + 1) (fileToDelete + 1)
          (remove_file (to_string fileToDelete) w)
      else w)"
  by pat_completeness auto
termination
  by (relation "measure (\<lambda>(n, i, d, w). n - i)") auto

declare remove_loop.simps [simp del]

text \<open>One iteration of the outer loop, up to the end of its scope, where the output
  stream is closed; it yields the world and \<open>currentFileNumToMerge\<close>.\<close>

definition mergeBatch ::
  "heap_lib \<Rightarrow> world \<Rightarrow> int \<Rightarrow> int \<Rightarrow> int \<Rightarrow> (error + world \<times> int) option" where
  "mergeBatch L w currentFileNumToMerge totalNumberOfFiles maxFileInts =
     (let numFilesRemaining = totalNumberOfFiles - currentFileNumToMerge;
          numFilesToOpen = (if numFilesRemaining < maxFileInts then numFilesRemaining
                            else maxFileInts)
      in if numFilesToOpen < 0 then Some (Inl bad_array_new_length)
         else
           let w1 = record_event (Frontier (nat numFilesToOpen))
                      (record_event (Opened (nat numFilesToOpen)) w)
           in case open_loop w1 (nat numFilesToOpen) 0 currentFileNumToMerge [] [] of
                Inl e \<Rightarrow> Some (Inl e)
              | Inr (filesToMerge, fileData0, cur) \<Rightarrow>
                  let fileData = make_heap L FileInteger_cmp fileData0;
                      outFile = fst (ofstream_open (to_string totalNumberOfFiles) w1);
                      w2 = snd (ofstream_open (to_string totalNumberOfFiles) w1)
                  in (case merge_loop L w2 filesToMerge fileData outFile of
                        None \<Rightarrow> None
                      | Some (Inl e) \<Rightarrow> Some (Inl e)
                      | Some (Inr (w3, filesToMerge', outFile')) \<Rightarrow>
                          let fileToDelete = cur - numFilesToOpen;
                              w4 = remove_loop (nat numFilesToOpen) 0 fileToDelete w3
                          in Some (Inr (ofstream_close outFile' w4, cur))))"

partial_function (option) mergeTempFiles_loop ::
  "heap_lib \<Rightarrow> world \<Rightarrow> int \<Rightarrow> int \<Rightarrow> int \<Rightarrow> (error + world \<times> int) option"
where
  "mergeTempFiles_loop L w currentFileNumToMerge totalNumberOfFiles maxFileInts =
     (if currentFileNumToMerge < totalNumberOfFiles then
        case mergeBatch L w currentFileNumToMerge totalNumberOfFiles maxFileInts of
          None \<Rightarrow> None
        | Some (Inl e) \<Rightarrow> Some (Inl e)
        | Some (Inr (w', cur)) \<Rightarrow>
            mergeTempFiles_loop L w' cur
              (if cur \<noteq> totalNumberOfFiles then totalNumberOfFiles + 1
               else totalNumberOfFiles)
              maxFileInts
      else Some (Inr (w, currentFileNumToMerge)))"

declare mergeTempFiles_loop.simps [code]

definition mergeTempFiles ::
  "heap_lib \<Rightarrow> world \<Rightarrow> int \<Rightarrow> int \<Rightarrow> string \<Rightarrow> (error + world) option" where
  "mergeTempFiles L w totalNumberOfFiles maxFileInts sortedPath =
     (case mergeTempFiles_loop L w 0 totalNumberOfFiles maxFileInts of
        None \<Rightarrow> None
      | Some (Inl e) \<Rightarrow> Some (Inl e)
      | Some (Inr (w', cur)) \<Rightarrow> Some (Inr (rename_file (to_string cur) sortedPath w')))"

section \<open>The program\<close>

text \<open>The sort proper, lines 67 to 71 of \<open>main\<close>, on an input stream that has just been
  opened on a file holding \<open>xs\<close>. A stream keeps the contents it was opened on: the input
  file is taken not to bear the name of a run file.\<close>

definition externalSort ::
  "heap_lib \<Rightarrow> world \<Rightarrow> int list \<Rightarrow> int \<Rightarrow> string \<Rightarrow> (error + world) option" where
  "externalSort L w xs maxFileInts sortedPath =
     (case makeTempFiles w (open_stream xs) maxFileInts of
        None \<Rightarrow> None
      | Some (Inl e) \<Rightarrow> Some (Inl e)
      | Some (Inr (w1, inFile, numberOfFiles)) \<Rightarrow>
          mergeTempFiles L w1 numberOfFiles maxFileInts sortedPath)"

text \<open>\<open>main\<close>, with the three values read from the standard input as arguments.\<close>

definition main ::
  "heap_lib \<Rightarrow> world \<Rightarrow> string \<Rightarrow> string \<Rightarrow> int \<Rightarrow> (error + world) option" where
  "main L w unsortedPath sortedPath maxFileInts =
     (if maxFileInts \<le> 1 then Some (Inl exit_bound)
      else case disk w unsortedPath of
             None \<Rightarrow> Some (Inl exit_open)
           | Some xs \<Rightarrow> externalSort L w xs maxFileInts sortedPath)"

section \<open>A heap library\<close>



text \<open>
  Two libraries that meet the requirements, for evaluating the program: both rearrange by
  insertion into ascending order, which is a heap; they differ in the order they give to
  elements that compare equal.
\<close>

fun place :: "('a \<Rightarrow> 'a \<Rightarrow> bool) \<Rightarrow> 'a \<Rightarrow> 'a list \<Rightarrow> 'a list" where
  "place cmp x [] = [x]"
| "place cmp x (y # ys) = (if cmp x y then y # place cmp x ys else x # y # ys)"

definition arrange :: "('a \<Rightarrow> 'a \<Rightarrow> bool) \<Rightarrow> 'a list \<Rightarrow> 'a list" where
  "arrange cmp v = foldr (place cmp) v []"

definition ordered_lib :: heap_lib where
  "ordered_lib =
     \<lparr>make_heap = (\<lambda>cmp v. arrange cmp v),
      pop_heap = (\<lambda>cmp v. arrange cmp (tl v) @ [hd v]),
      push_heap = (\<lambda>cmp v. arrange cmp v)\<rparr>"


definition fresh :: "(string \<rightharpoonup> int list) \<Rightarrow> world" where
  "fresh d = \<lparr>disk = d, journal = []\<rparr>"

section \<open>Specification vocabulary\<close>

text \<open>The partition of a sequence into consecutive chunks of \<open>K\<close> elements, the last one
  possibly shorter.\<close>

function chunks :: "nat \<Rightarrow> 'a list \<Rightarrow> 'a list list" where
  "chunks K xs = (if K = 0 \<or> xs = [] then [] else take K xs # chunks K (drop K xs))"
  by pat_completeness auto
termination
  by (relation "measure (\<lambda>(K, xs). length xs)") auto

declare chunks.simps [simp del]


definition run_names :: "int \<Rightarrow> int \<Rightarrow> string set" where
  "run_names a b = to_string ` {a..<b}"




text \<open>
  The state of a batch while it merges. The unread integers of the stream a cursor points
  to; a cursor that agrees with its stream; a frontier with one agreeing cursor per stream;
  the integers the frontier has still to deliver; and the ordering invariant: the output
  so far ascends, every cursor's value and unread integers ascend, and nothing written
  exceeds a value in the frontier.
\<close>

definition rest :: "ifstream list \<Rightarrow> FileInteger \<Rightarrow> int list" where
  "rest files c =
     drop (gpos (files ! ptrFileReadFrom c)) (contents (files ! ptrFileReadFrom c))"



definition pending :: "ifstream list \<Rightarrow> FileInteger list \<Rightarrow> int multiset" where
  "pending files h = (\<Sum>c\<in>#mset h. mset (val c # rest files c))"








section \<open>Properties\<close>

subsection \<open>File names\<close>

lemma digit_char_inj:
  assumes "d < 10" "e < 10" "digit_char d = digit_char e"
  shows "d = e"
proof -
  have dist: "distinct ''0123456789''" by simp
  have "d < length ''0123456789''" "e < length ''0123456789''" using assms by simp_all
  with dist assms(3) show ?thesis
    unfolding digit_char_def by (simp only: nth_eq_iff_index_eq)
qed

lemma digit_char_not_minus: "d < 10 \<Longrightarrow> digit_char d \<noteq> CHR ''-''"
proof -
  assume "d < 10"
  then have "digit_char d \<in> set ''0123456789''"
    unfolding digit_char_def by (intro nth_mem) simp
  then show ?thesis by auto
qed

lemma digits_not_Nil: "digits n \<noteq> []"
  by (subst digits.simps) simp

lemma last_digits: "last (digits n) = digit_char (n mod 10)"
  by (subst digits.simps) simp

lemma butlast_digits: "butlast (digits n) = (if n < 10 then [] else digits (n div 10))"
  by (subst digits.simps) simp

lemma hd_digits_not_minus: "hd (digits n) \<noteq> CHR ''-''"
proof (induction n rule: digits.induct)
  case (1 n)
  show ?case
  proof (cases "n < 10")
    case True
    then show ?thesis by (subst digits.simps) (simp add: digit_char_not_minus)
  next
    case False
    with 1 show ?thesis by (subst digits.simps) (simp add: digits_not_Nil)
  qed
qed

lemma digits_inj: "digits n = digits m \<Longrightarrow> n = m"
proof (induction n arbitrary: m rule: digits.induct)
  case (1 n)
  from 1(2) have l: "digit_char (n mod 10) = digit_char (m mod 10)"
    using last_digits by metis
  then have md: "n mod 10 = m mod 10" by (auto intro: digit_char_inj)
  from 1(2) have b: "butlast (digits n) = butlast (digits m)" by simp
  show ?case
  proof (cases "n < 10")
    case True
    with b have "m < 10"
      using digits_not_Nil[of "m div 10"] by (auto simp: butlast_digits split: if_splits)
    with True md show ?thesis by simp
  next
    case False
    with b have m: "\<not> m < 10" and "digits (n div 10) = digits (m div 10)"
      using digits_not_Nil[of "n div 10"] by (auto simp: butlast_digits split: if_splits)
    with 1(1) False have "n div 10 = m div 10" by blast
    with md show ?thesis by (metis div_mult_mod_eq)
  qed
qed

lemma to_string_inj [simp]: "to_string i = to_string j \<longleftrightarrow> i = j"
proof (rule iffI)
  assume "i = j" then show "to_string i = to_string j" by simp
next
  assume eq: "to_string i = to_string j"
  then have heq: "hd (to_string i) = hd (to_string j)" by simp
  show "i = j"
  proof (cases "i < 0"; cases "j < 0")
    assume "i < 0" "j < 0"
    with eq have "nat (- i) = nat (- j)" by (auto simp: to_string_def dest: digits_inj)
    with \<open>i < 0\<close> \<open>j < 0\<close> show ?thesis by simp
  next
    assume "i < 0" "\<not> j < 0"
    with heq have "hd (digits (nat j)) = CHR ''-''"
      by (simp add: to_string_def)
    then show ?thesis using hd_digits_not_minus by blast
  next
    assume "\<not> i < 0" "j < 0"
    with heq have "hd (digits (nat i)) = CHR ''-''"
      by (simp add: to_string_def)
    then show ?thesis using hd_digits_not_minus by blast
  next
    assume "\<not> i < 0" "\<not> j < 0"
    with eq have "nat i = nat j" by (auto simp: to_string_def dest: digits_inj)
    with \<open>\<not> i < 0\<close> \<open>\<not> j < 0\<close> show ?thesis by simp
  qed
qed

subsection \<open>The length query\<close>

lemma fileLen_good:
  assumes "good s"
  shows "fileLen s = (sizeof_int * int (length (contents s)), s)"
  using assms
  by (simp add: fileLen_def tellg_def seekg_dir_def seekg_pos_def seekg_to_def sentry_def
      good_def clear_def sizeof_int_def Let_def)

subsection \<open>Chunks\<close>

lemma chunks_Nil [simp]: "chunks K [] = []"
  by (subst chunks.simps) simp






subsection \<open>Run generation\<close>


lemma run_names_iff [simp]: "to_string i \<in> run_names a b \<longleftrightarrow> a \<le> i \<and> i < b"
  by (auto simp: run_names_def)



lemma makeTempFiles_loop_done:
  "makeTempFiles_loop w f k 0 fn = Some (Inr (w, f, fn))"
  by (subst makeTempFiles_loop.simps) simp



lemma good_open_stream [simp]: "good (open_stream xs)"
  by (simp add: good_def open_stream_def)

lemma open_stream_sel [simp]:
  "contents (open_stream xs) = xs" "gpos (open_stream xs) = 0"
  by (simp_all add: open_stream_def)


subsection \<open>The heap contract and the merge loop\<close>

















lemma pending_Nil [simp]: "pending files [] = {#}"
  by (simp add: pending_def)


subsection \<open>One batch\<close>















subsection \<open>The outer loop\<close>


lemma mergeTempFiles_loop_exit:
  "\<not> cur < tot \<Longrightarrow> mergeTempFiles_loop L w cur tot k = Some (Inr (w, cur))"
  by (subst mergeTempFiles_loop.simps) simp





subsection \<open>The libraries and the whole sort\<close>













lemma rename_file_journal [simp]: "journal (rename_file a b w) = journal w"
  by (simp add: rename_file_def split: option.split)

lemma makeTempFiles_empty:
  "makeTempFiles w (open_stream []) k = Some (Inr (w, open_stream [], 0))"
proof -
  have "fileLen (open_stream []) = (0, open_stream [])"
    using fileLen_good[OF good_open_stream, of "[]"] by simp
  then show ?thesis by (simp add: makeTempFiles_def makeTempFiles_loop_done)
qed

lemma externalSort_empty:
  "externalSort L w [] k dest = Some (Inr (rename_file (to_string 0) dest w))"
  by (simp add: externalSort_def makeTempFiles_empty mergeTempFiles_def
      mergeTempFiles_loop_exit)

lemma run_names_mono: "a' \<le> a \<Longrightarrow> b \<le> b' \<Longrightarrow> run_names a b \<subseteq> run_names a' b'"
  by (auto simp: run_names_def)




subsection \<open>Evaluation on concrete inputs\<close>





section \<open>The claims\<close>

subsection \<open>C1: the sorted file holds the integers of the input\<close>

text \<open>
  C1 holds for every input that is not empty: by lemma \<open>externalSort_runs\<close> the destination
  then holds the sorted input, which has the integers of the input, each as often. It
  fails on the empty input: \<open>makeTempFiles\<close> creates no run and returns 0, the loop of
  \<open>mergeTempFiles\<close> is not entered, the file 0 it then renames does not exist, and the
  directory is left as it was, with no file at the destination.
\<close>

theorem externalSort_empty_input:
  "externalSort ordered_lib (fresh Map.empty) [] 2 ''sorted.bin'' = Some (Inr (fresh Map.empty))
   \<and> disk (fresh Map.empty) ''sorted.bin'' = None"
  by (simp add: externalSort_empty rename_file_def fresh_def)

subsection \<open>C2: the sorted file is non-decreasing\<close>



subsection \<open>C3: the runs\<close>



subsection \<open>C4: merging ends\<close>



subsection \<open>C5: the bound on buffers, streams and the frontier\<close>



subsection \<open>C6: run files are removed\<close>



subsection \<open>C7: an input of exactly one run\<close>




subsection \<open>C8: a bound of at most 1\<close>

text \<open>
  C8 (as amended). A bound of at most 1 is refused by the caller: \<open>main\<close> exits before it
  opens the input file, so neither run generation nor merging starts.
\<close>

theorem main_rejects_bound:
  "maxFileInts \<le> 1 \<Longrightarrow> main L w unsortedPath sortedPath maxFileInts = Some (Inl exit_bound)"
  by (simp add: main_def)

theorem main_rejects_bound_witness:
  "(1::int) \<le> 1
   \<and> main ordered_lib (fresh [''unsorted.bin'' \<mapsto> [2, 1]]) ''unsorted.bin'' ''sorted.bin'' 1
       = Some (Inl exit_bound)"
proof -
  have b: "(1::int) \<le> 1" by simp
  from main_rejects_bound[OF b] b show ?thesis by blast
qed

text \<open>
  C8 (as stated) fails: \<open>mergeTempFiles\<close> has no check of its own. Called with one run and
  the bound 1 it opens a batch on that run, writes it to the file 1 and renames that file
  to the destination, as with any other bound.
\<close>

theorem mergeTempFiles_bound_1_counterexample:
  "map_option (map_sum id (\<lambda>w. (disk w ''sorted.bin'', journal w)))
     (mergeTempFiles ordered_lib (fresh [''0'' \<mapsto> [7]]) 1 1 ''sorted.bin'')
   = Some (Inr (Some [7], [Opened 1, Frontier 1, Created ''1'', Frontier 0]))"
  by code_simp

subsection \<open>C9: the length query\<close>




subsection \<open>C10: determinism\<close>



end
